theory Spec2Isabelle
  imports Complex_Main "HOL-Library.AList"
begin

section \<open>Data model of \<^verbatim>\<open>feature_flags.py\<close>\<close>

text \<open>
  Python's unbounded integers are \<open>int\<close>. Python's floats (rollout percentages, experiment
  splits, conversion rates) are modelled by \<open>real\<close>: the code only compares them, takes
  \<open>min\<close>/\<open>max\<close>/\<open>abs\<close> and divides, and true division by zero is written out as the
  \<open>ZeroDivisionError\<close> that Python raises. A \<open>datetime\<close> is a count of microseconds (the
  resolution of Python's \<open>datetime\<close>); every \<open>datetime.now()\<close> of the source is a clock
  reading passed in as a parameter.
\<close>

datatype RolloutStrategy = ALL_USERS | PERCENTAGE | TARGETED | GRADUAL | CANARY

text \<open>
  Values of type \<open>Any\<close> stored in attribute dictionaries: \<open>None\<close>, booleans, integers and
  strings. \<open>py_eq\<close> is Python's \<open>==\<close> on them (\<open>bool\<close> is a subclass of \<open>int\<close>, so
  \<open>True == 1\<close>).
\<close>

datatype pyval = PNone | PBool bool | PInt int | PStr string

fun py_eq :: "pyval \<Rightarrow> pyval \<Rightarrow> bool" where
  "py_eq PNone PNone = True"
| "py_eq (PBool a) (PBool b) = (a = b)"
| "py_eq (PInt a) (PInt b) = (a = b)"
| "py_eq (PBool a) (PInt b) = ((if a then 1 else 0) = b)"
| "py_eq (PInt a) (PBool b) = (a = (if b then 1 else 0))"
| "py_eq (PStr a) (PStr b) = (a = b)"
| "py_eq _ _ = False"

type_synonym datetime = int

record FeatureFlag =
  key :: string
  name :: string
  description :: string
  enabled :: bool
  rollout_strategy :: RolloutStrategy
  rollout_percentage :: real
  target_users :: "string set"
  target_groups :: "string set"
  target_attributes :: "(string \<times> pyval) list"
  created_at :: datetime
  updated_at :: datetime
  evaluations :: int
  enabled_count :: int

text \<open>
  The field \<open>id\<close> of \<open>User\<close> is \<open>id_user\<close> here (\<open>id\<close> is HOL's identity function).
  Attribute dictionaries are association lists, read with \<open>map_of\<close>.
\<close>

record User =
  id_user :: string
  email :: string
  groups :: "string list"
  attributes :: "(string \<times> pyval) list"

text \<open>\<open>TargetingEngine\<close> has one field, its own evaluation counter.\<close>

record TargetingEngine =
  engine_evaluations :: int

datatype py_error = ZeroDivisionError

section \<open>Targeting engine\<close>

text \<open>
  \<open>hashlib.md5\<close> is a library function: \<open>H s\<close> stands for
  \<^verbatim>\<open>int(hashlib.md5(s.encode()).hexdigest(), 16)\<close> and is a parameter of every definition
  that hashes. \<open>bucket\<close> is the expression \<^verbatim>\<open>(hash_value % 100) / 100.0\<close>.
\<close>

definition hash_input :: "string \<Rightarrow> string \<Rightarrow> string" where
  "hash_input k uid = k @ '':'' @ uid"

definition bucket :: "(string \<Rightarrow> nat) \<Rightarrow> string \<Rightarrow> real" where
  "bucket H s = real (H s mod 100) / 100"

text \<open>\<open>dict.get(k)\<close>: a missing key reads as \<open>None\<close>.\<close>

definition dict_get :: "(string \<times> pyval) list \<Rightarrow> string \<Rightarrow> pyval" where
  "dict_get d k = (case map_of d k of None \<Rightarrow> PNone | Some v \<Rightarrow> v)"

definition evaluate_targeted :: "FeatureFlag \<Rightarrow> User \<Rightarrow> bool" where
  "evaluate_targeted flag user =
     (if id_user user \<in> target_users flag then True
      else if list_ex (\<lambda>group. group \<in> target_groups flag) (groups user) then True
      else list_ex (\<lambda>(attr, v). py_eq (dict_get (attributes user) attr) v)
             (target_attributes flag))"

definition evaluate_percentage :: "(string \<Rightarrow> nat) \<Rightarrow> FeatureFlag \<Rightarrow> User \<Rightarrow> bool" where
  "evaluate_percentage H flag user =
     (bucket H (hash_input (key flag) (id_user user)) < rollout_percentage flag)"

definition elapsed_hours :: "datetime \<Rightarrow> datetime \<Rightarrow> real" where
  "elapsed_hours now created = (real_of_int (now - created) / 1000000) / 3600"

definition evaluate_gradual ::
  "(string \<Rightarrow> nat) \<Rightarrow> datetime \<Rightarrow> FeatureFlag \<Rightarrow> User \<Rightarrow> bool" where
  "evaluate_gradual H now flag user =
     (let target_percentage = min 1 (elapsed_hours now (created_at flag) * (1 / 10))
      in bucket H (hash_input (key flag) (id_user user)) < target_percentage)"

definition evaluate_canary :: "(string \<Rightarrow> nat) \<Rightarrow> FeatureFlag \<Rightarrow> User \<Rightarrow> bool" where
  "evaluate_canary H flag user =
     (evaluate_percentage H flag user \<and> rollout_percentage flag \<le> 5 / 100)"

text \<open>
  The strategy dispatch of \<open>evaluate\<close>. The source's final \<open>else: result = False\<close> has no
  case here: the five constructors are all the members of the enum.
\<close>

fun strategy_result ::
  "(string \<Rightarrow> nat) \<Rightarrow> datetime \<Rightarrow> RolloutStrategy \<Rightarrow> FeatureFlag \<Rightarrow> User \<Rightarrow> bool" where
  "strategy_result H now ALL_USERS flag user = True"
| "strategy_result H now TARGETED flag user = evaluate_targeted flag user"
| "strategy_result H now PERCENTAGE flag user = evaluate_percentage H flag user"
| "strategy_result H now GRADUAL flag user = evaluate_gradual H now flag user"
| "strategy_result H now CANARY flag user = evaluate_canary H flag user"

text \<open>
  \<open>evaluate\<close> returns its boolean together with the engine and the flag as the call
  leaves them.
\<close>

definition evaluate ::
  "(string \<Rightarrow> nat) \<Rightarrow> datetime \<Rightarrow> TargetingEngine \<Rightarrow> FeatureFlag \<Rightarrow> User
     \<Rightarrow> bool \<times> TargetingEngine \<times> FeatureFlag" where
  "evaluate H now eng flag user =
     (let eng1 = eng\<lparr>engine_evaluations := engine_evaluations eng + 1\<rparr>;
          flag1 = flag\<lparr>evaluations := evaluations flag + 1\<rparr>
      in if \<not> enabled flag1 then (False, eng1, flag1)
         else let result = strategy_result H now (rollout_strategy flag1) flag1 user
              in if result then (True, eng1, flag1\<lparr>enabled_count := enabled_count flag1 + 1\<rparr>)
                 else (False, eng1, flag1))"

section \<open>Flag registry\<close>

record FeatureFlagManager =
  flags :: "string \<rightharpoonup> FeatureFlag"
  targeting_engine :: TargetingEngine

definition FeatureFlagManager_init :: FeatureFlagManager where
  "FeatureFlagManager_init =
     \<lparr>flags = Map.empty, targeting_engine = \<lparr>engine_evaluations = 0\<rparr>\<rparr>"

text \<open>
  The dataclass defaults of \<open>FeatureFlag\<close>; \<open>t1\<close> and \<open>t2\<close> are the two clock readings
  of the default factories of \<open>created_at\<close> and \<open>updated_at\<close>.
\<close>

definition new_flag :: "string \<Rightarrow> string \<Rightarrow> string \<Rightarrow> datetime \<Rightarrow> datetime \<Rightarrow> FeatureFlag" where
  "new_flag k n d t1 t2 =
     \<lparr>key = k, name = n, description = d, enabled = False,
      rollout_strategy = ALL_USERS, rollout_percentage = 0,
      target_users = {}, target_groups = {}, target_attributes = [],
      created_at = t1, updated_at = t2, evaluations = 0, enabled_count = 0\<rparr>"

definition create_flag ::
  "FeatureFlagManager \<Rightarrow> string \<Rightarrow> string \<Rightarrow> string \<Rightarrow> datetime \<Rightarrow> datetime
     \<Rightarrow> FeatureFlag \<times> FeatureFlagManager" where
  "create_flag m k n d t1 t2 =
     (let flag = new_flag k n d t1 t2
      in (flag, m\<lparr>flags := (flags m)(k \<mapsto> flag)\<rparr>))"

text \<open>
  One keyword argument of \<open>update_flag\<close>. It is the name of a field of the dataclass with
  a value of the field's type; or \<open>__dict__\<close>, which the flag has as an attribute
  (\<open>hasattr\<close> is true), with a dictionary that gives all thirteen fields: the assignment
  replaces every field of the flag at once; or a name for which \<open>hasattr\<close> is false
  (\<open>Kw_other\<close>), which is skipped. \<open>key\<close> cannot be passed: it is the name of the
  positional parameter. The other attributes of the object that are no fields (\<open>__class__\<close>,
  \<open>__doc__\<close>, the methods) have no constructor here.

  The dictionary of \<open>Kw_dict\<close> is a value: the model has no dictionary shared between two
  flags, which the code has when one dictionary object is passed for two flags. The
  theorems about sequences of calls therefore leave every \<open>__dict__\<close> argument out.
\<close>

datatype kwarg =
    Kw_name string
  | Kw_description string
  | Kw_enabled bool
  | Kw_rollout_strategy RolloutStrategy
  | Kw_rollout_percentage real
  | Kw_target_users "string set"
  | Kw_target_groups "string set"
  | Kw_target_attributes "(string \<times> pyval) list"
  | Kw_created_at datetime
  | Kw_updated_at datetime
  | Kw_evaluations int
  | Kw_enabled_count int
  | Kw_dict FeatureFlag
  | Kw_other string

fun setattr :: "FeatureFlag \<Rightarrow> kwarg \<Rightarrow> FeatureFlag" where
  "setattr flag (Kw_name v) = flag\<lparr>name := v\<rparr>"
| "setattr flag (Kw_description v) = flag\<lparr>description := v\<rparr>"
| "setattr flag (Kw_enabled v) = flag\<lparr>enabled := v\<rparr>"
| "setattr flag (Kw_rollout_strategy v) = flag\<lparr>rollout_strategy := v\<rparr>"
| "setattr flag (Kw_rollout_percentage v) = flag\<lparr>rollout_percentage := v\<rparr>"
| "setattr flag (Kw_target_users v) = flag\<lparr>target_users := v\<rparr>"
| "setattr flag (Kw_target_groups v) = flag\<lparr>target_groups := v\<rparr>"
| "setattr flag (Kw_target_attributes v) = flag\<lparr>target_attributes := v\<rparr>"
| "setattr flag (Kw_created_at v) = flag\<lparr>created_at := v\<rparr>"
| "setattr flag (Kw_updated_at v) = flag\<lparr>updated_at := v\<rparr>"
| "setattr flag (Kw_evaluations v) = flag\<lparr>evaluations := v\<rparr>"
| "setattr flag (Kw_enabled_count v) = flag\<lparr>enabled_count := v\<rparr>"
| "setattr flag (Kw_dict d) = d"
| "setattr flag (Kw_other k) = flag"

definition update_flag ::
  "FeatureFlagManager \<Rightarrow> string \<Rightarrow> kwarg list \<Rightarrow> datetime \<Rightarrow> bool \<times> FeatureFlagManager" where
  "update_flag m k kwargs now =
     (case flags m k of
        None \<Rightarrow> (False, m)
      | Some flag \<Rightarrow>
          (True, m\<lparr>flags := (flags m)(k \<mapsto> (foldl setattr flag kwargs)\<lparr>updated_at := now\<rparr>)\<rparr>))"

definition is_enabled ::
  "(string \<Rightarrow> nat) \<Rightarrow> datetime \<Rightarrow> FeatureFlagManager \<Rightarrow> string \<Rightarrow> User
     \<Rightarrow> bool \<times> FeatureFlagManager" where
  "is_enabled H now m k user =
     (case flags m k of
        None \<Rightarrow> (False, m)
      | Some flag \<Rightarrow>
          (case evaluate H now (targeting_engine m) flag user of
             (r, eng', flag') \<Rightarrow>
               (r, m\<lparr>flags := (flags m)(k \<mapsto> flag'), targeting_engine := eng'\<rparr>)))"

text \<open>
  The \<open>while\<close> loop of \<open>rollout_gradually\<close>; it need not end (a \<open>step\<close> that is not
  positive), so it is a partial function and \<open>None\<close> is a call that never returns.
\<close>

partial_function (option) rollout_loop :: "real \<Rightarrow> real \<Rightarrow> real \<Rightarrow> real option" where
  "rollout_loop current target_percentage step =
     (if current < target_percentage
      then rollout_loop (min (current + step) target_percentage) target_percentage step
      else Some current)"

definition rollout_gradually ::
  "FeatureFlagManager \<Rightarrow> string \<Rightarrow> real \<Rightarrow> real \<Rightarrow> FeatureFlagManager option" where
  "rollout_gradually m k target_percentage step =
     (case flags m k of
        None \<Rightarrow> Some m
      | Some flag \<Rightarrow>
          (case rollout_loop (rollout_percentage flag) target_percentage step of
             None \<Rightarrow> None
           | Some current \<Rightarrow>
               Some (m\<lparr>flags := (flags m)(k \<mapsto>
                      flag\<lparr>rollout_strategy := PERCENTAGE, rollout_percentage := current\<rparr>)\<rparr>)))"

section \<open>Kill switch\<close>

text \<open>One entry of \<open>activated_switches\<close>, the dictionary with keys flag, reason, timestamp.\<close>

record AuditRecord =
  flag_key :: string
  reason :: string
  timestamp :: datetime

record KillSwitch =
  manager :: FeatureFlagManager
  activated_switches :: "AuditRecord list"

text \<open>\<open>activate\<close> and \<open>deactivate\<close> are coroutines; the model is the awaited call.\<close>

definition activate ::
  "KillSwitch \<Rightarrow> string \<Rightarrow> string \<Rightarrow> datetime \<Rightarrow> bool \<times> KillSwitch" where
  "activate ks k why now =
     (case flags (manager ks) k of
        Some flag \<Rightarrow>
          (True,
           ks\<lparr>manager := (manager ks)\<lparr>flags := (flags (manager ks))(k \<mapsto> flag\<lparr>enabled := False\<rparr>)\<rparr>,
              activated_switches := activated_switches ks @
                [\<lparr>flag_key = k, reason = why, timestamp = now\<rparr>]\<rparr>)
      | None \<Rightarrow> (False, ks))"

definition deactivate :: "KillSwitch \<Rightarrow> string \<Rightarrow> bool \<times> KillSwitch" where
  "deactivate ks k =
     (case flags (manager ks) k of
        Some flag \<Rightarrow>
          (True,
           ks\<lparr>manager := (manager ks)\<lparr>flags := (flags (manager ks))(k \<mapsto> flag\<lparr>enabled := True\<rparr>)\<rparr>\<rparr>)
      | None \<Rightarrow> (False, ks))"

section \<open>A/B testing engine\<close>

text \<open>
  An experiment is the dictionary that \<open>create_experiment\<close> builds, with its eight keys.
  The engine's \<open>experiments\<close> dictionary is an association list in insertion order, so
  that \<open>len\<close> is its length.
\<close>

record Experiment =
  exp_name :: string
  flag_a :: string
  flag_b :: string
  split :: real
  variant_a_count :: int
  variant_b_count :: int
  variant_a_conversions :: int
  variant_b_conversions :: int

record ABTestingEngine =
  experiments :: "(string \<times> Experiment) list"

definition ABTestingEngine_init :: ABTestingEngine where
  "ABTestingEngine_init = \<lparr>experiments = []\<rparr>"

text \<open>The decimal digits of a natural number, as \<open>str\<close> prints them.\<close>

fun str_nat :: "nat \<Rightarrow> string" where
  "str_nat n =
     (if n < 10 then [char_of (48 + n)]
      else str_nat (n div 10) @ [char_of (48 + n mod 10)])"

definition create_experiment ::
  "ABTestingEngine \<Rightarrow> string \<Rightarrow> string \<Rightarrow> string \<Rightarrow> real \<Rightarrow> string \<times> ABTestingEngine" where
  "create_experiment e n fa fb s =
     (let exp_id = ''exp-'' @ str_nat (length (experiments e))
      in (exp_id,
          e\<lparr>experiments := AList.update exp_id
              \<lparr>exp_name = n, flag_a = fa, flag_b = fb, split = s,
               variant_a_count = 0, variant_b_count = 0,
               variant_a_conversions = 0, variant_b_conversions = 0\<rparr>
              (experiments e)\<rparr>))"

definition assign_variant ::
  "(string \<Rightarrow> nat) \<Rightarrow> ABTestingEngine \<Rightarrow> string \<Rightarrow> User \<Rightarrow> string \<times> ABTestingEngine" where
  "assign_variant H e exp_id user =
     (case map_of (experiments e) exp_id of
        None \<Rightarrow> (''a'', e)
      | Some ex \<Rightarrow>
          (let variant = (if bucket H (hash_input exp_id (id_user user)) < split ex
                          then ''a'' else ''b'')
           in if variant = ''a''
              then (variant, e\<lparr>experiments := AList.update exp_id
                      (ex\<lparr>variant_a_count := variant_a_count ex + 1\<rparr>) (experiments e)\<rparr>)
              else (variant, e\<lparr>experiments := AList.update exp_id
                      (ex\<lparr>variant_b_count := variant_b_count ex + 1\<rparr>) (experiments e)\<rparr>)))"

text \<open>
  \<open>record_conversion\<close> calls \<open>assign_variant\<close> and then reads the experiment again, from
  the engine that call left.
\<close>

definition record_conversion ::
  "(string \<Rightarrow> nat) \<Rightarrow> ABTestingEngine \<Rightarrow> string \<Rightarrow> User \<Rightarrow> ABTestingEngine" where
  "record_conversion H e exp_id user =
     (case map_of (experiments e) exp_id of
        None \<Rightarrow> e
      | Some _ \<Rightarrow>
          (case assign_variant H e exp_id user of
             (variant, e1) \<Rightarrow>
               (case map_of (experiments e1) exp_id of
                  None \<Rightarrow> e1
                | Some ex \<Rightarrow>
                    if variant = ''a''
                    then e1\<lparr>experiments := AList.update exp_id
                           (ex\<lparr>variant_a_conversions := variant_a_conversions ex + 1\<rparr>)
                           (experiments e1)\<rparr>
                    else e1\<lparr>experiments := AList.update exp_id
                           (ex\<lparr>variant_b_conversions := variant_b_conversions ex + 1\<rparr>)
                           (experiments e1)\<rparr>)))"

text \<open>Python's true division \<open>/\<close> raises on a zero divisor.\<close>

definition py_truediv :: "real \<Rightarrow> real \<Rightarrow> py_error + real" where
  "py_truediv a b = (if b = 0 then Inl ZeroDivisionError else Inr (a / b))"

record VariantStats =
  users :: int
  conversions :: int
  rate :: real

record Results =
  res_name :: string
  variant_a :: VariantStats
  variant_b :: VariantStats
  winner :: string
  lift :: real

text \<open>
  \<open>get_results\<close>: \<open>Inr None\<close> is the empty dictionary returned for an unknown experiment,
  \<open>Inl\<close> an exception. The divisors \<open>max(count, 1)\<close> of the two rates are at least one;
  the divisor of \<open>lift\<close> is \<open>max(conv_rate_a, conv_rate_b)\<close>.
\<close>

definition get_results :: "ABTestingEngine \<Rightarrow> string \<Rightarrow> py_error + Results option" where
  "get_results e exp_id =
     (case map_of (experiments e) exp_id of
        None \<Rightarrow> Inr None
      | Some ex \<Rightarrow>
          (case py_truediv (real_of_int (variant_a_conversions ex))
                  (real_of_int (max (variant_a_count ex) 1)) of
             Inl err \<Rightarrow> Inl err
           | Inr conv_rate_a \<Rightarrow>
          (case py_truediv (real_of_int (variant_b_conversions ex))
                  (real_of_int (max (variant_b_count ex) 1)) of
             Inl err \<Rightarrow> Inl err
           | Inr conv_rate_b \<Rightarrow>
          (case py_truediv \<bar>conv_rate_a - conv_rate_b\<bar> (max conv_rate_a conv_rate_b) of
             Inl err \<Rightarrow> Inl err
           | Inr l \<Rightarrow>
               Inr (Some
                 \<lparr>res_name = exp_name ex,
                  variant_a = \<lparr>users = variant_a_count ex,
                               conversions = variant_a_conversions ex, rate = conv_rate_a\<rparr>,
                  variant_b = \<lparr>users = variant_b_count ex,
                               conversions = variant_b_conversions ex, rate = conv_rate_b\<rparr>,
                  winner = (if conv_rate_a > conv_rate_b then ''a'' else ''b''),
                  lift = l\<rparr>)))))"

section \<open>Sequences of calls on the flag system\<close>

text \<open>
  The calls a client can make on the registry and its kill switch, and the state after a
  list of them, run in order on a \<open>KillSwitch\<close> (which holds the manager). \<open>run\<close>
  returns what each call returned.
\<close>

datatype call =
    Is_enabled string User datetime
  | Create_flag string string string datetime datetime
  | Update_flag string "kwarg list" datetime
  | Activate string string datetime
  | Deactivate string

datatype ret = Ret_bool bool | Ret_flag FeatureFlag

fun step :: "(string \<Rightarrow> nat) \<Rightarrow> KillSwitch \<Rightarrow> call \<Rightarrow> ret \<times> KillSwitch" where
  "step H ks (Is_enabled k u t) =
     (case is_enabled H t (manager ks) k u of (r, m') \<Rightarrow> (Ret_bool r, ks\<lparr>manager := m'\<rparr>))"
| "step H ks (Create_flag k n d t1 t2) =
     (case create_flag (manager ks) k n d t1 t2 of (f, m') \<Rightarrow> (Ret_flag f, ks\<lparr>manager := m'\<rparr>))"
| "step H ks (Update_flag k kwargs t) =
     (case update_flag (manager ks) k kwargs t of (r, m') \<Rightarrow> (Ret_bool r, ks\<lparr>manager := m'\<rparr>))"
| "step H ks (Activate k why t) =
     (case activate ks k why t of (r, ks') \<Rightarrow> (Ret_bool r, ks'))"
| "step H ks (Deactivate k) =
     (case deactivate ks k of (r, ks') \<Rightarrow> (Ret_bool r, ks'))"

fun run :: "(string \<Rightarrow> nat) \<Rightarrow> KillSwitch \<Rightarrow> call list \<Rightarrow> ret list \<times> KillSwitch" where
  "run H ks [] = ([], ks)"
| "run H ks (c # cs) =
     (case step H ks c of (r, ks') \<Rightarrow>
        (case run H ks' cs of (rs, ks'') \<Rightarrow> (r # rs, ks'')))"

fun is_dict :: "kwarg \<Rightarrow> bool" where
  "is_dict (Kw_dict d) = True"
| "is_dict _ = False"

text \<open>
  A call that can set \<open>enabled\<close> of flag \<open>k\<close> back to true: \<open>deactivate\<close> on \<open>k\<close>,
  \<open>update_flag\<close> on \<open>k\<close> with \<open>enabled=True\<close>, and \<open>update_flag\<close> on any key with
  \<open>__dict__\<close> (on \<open>k\<close> it replaces \<open>enabled\<close> with the other fields; on another key the
  dictionary may be the one flag \<open>k\<close> has).
\<close>

fun reenables :: "string \<Rightarrow> call \<Rightarrow> bool" where
  "reenables k (Deactivate k') = (k' = k)"
| "reenables k (Update_flag k' kwargs t) =
     (list_ex is_dict kwargs \<or> (k' = k \<and> Kw_enabled True \<in> set kwargs))"
| "reenables k _ = False"

text \<open>Flag \<open>k\<close>, if the registry holds it, is not enabled.\<close>

definition disabled_in :: "string \<Rightarrow> KillSwitch \<Rightarrow> bool" where
  "disabled_in k ks = (case flags (manager ks) k of None \<Rightarrow> True | Some f \<Rightarrow> \<not> enabled f)"

section \<open>The counter invariant\<close>

definition flag_inv :: "FeatureFlag \<Rightarrow> bool" where
  "flag_inv f = (enabled_count f \<le> evaluations f)"

definition manager_inv :: "FeatureFlagManager \<Rightarrow> bool" where
  "manager_inv m = (\<forall>k f. flags m k = Some f \<longrightarrow> flag_inv f)"

text \<open>
  A keyword argument that assigns a counter: \<open>evaluations\<close>, \<open>enabled_count\<close>, or
  \<open>__dict__\<close>, which assigns both with every other field.
\<close>

fun sets_counter :: "kwarg \<Rightarrow> bool" where
  "sets_counter (Kw_evaluations v) = True"
| "sets_counter (Kw_enabled_count v) = True"
| "sets_counter (Kw_dict d) = True"
| "sets_counter _ = False"

text \<open>A call that assigns one of the two counters through \<open>update_flag\<close>.\<close>

fun touches_counters :: "call \<Rightarrow> bool" where
  "touches_counters (Update_flag k kwargs t) = list_ex sets_counter kwargs"
| "touches_counters _ = False"

section \<open>Sample data\<close>

text \<open>
  The flags and users that the source's \<open>demo\<close> builds, at clock reading 0. The theorems
  below hold for every hash function \<open>H\<close>; the examples take the length of the hashed
  string in place of its MD5 digest.
\<close>

definition sample_hash :: "string \<Rightarrow> nat" where
  "sample_hash s = length s"

definition user1 :: User where
  "user1 = \<lparr>id_user = ''1'', email = ''user1@test.com'', groups = [''free''], attributes = []\<rparr>"

definition user2 :: User where
  "user2 = \<lparr>id_user = ''2'', email = ''user2@test.com'', groups = [''premium''], attributes = []\<rparr>"

definition new_ui :: FeatureFlag where
  "new_ui = (new_flag ''new_ui'' ''New UI Design'' ''Redesigned user interface'' 0 0)
     \<lparr>enabled := True, rollout_strategy := PERCENTAGE, rollout_percentage := 25 / 100\<rparr>"

definition premium :: FeatureFlag where
  "premium = (new_flag ''premium_features'' ''Premium Features'' ''Advanced premium features'' 0 0)
     \<lparr>enabled := True, rollout_strategy := TARGETED,
      target_groups := {''premium'', ''enterprise''}\<rparr>"

definition demo_system :: KillSwitch where
  "demo_system =
     \<lparr>manager = \<lparr>flags = [''new_ui'' \<mapsto> new_ui, ''premium_features'' \<mapsto> premium],
                 targeting_engine = \<lparr>engine_evaluations = 0\<rparr>\<rparr>,
      activated_switches = []\<rparr>"

section \<open>Facts about \<open>evaluate\<close> and the hash bucket\<close>

lemma strategy_result_evaluations:
  "strategy_result H now s (flag\<lparr>evaluations := n\<rparr>) user = strategy_result H now s flag user"
  by (cases s)
     (simp_all add: evaluate_targeted_def evaluate_percentage_def evaluate_gradual_def
        evaluate_canary_def)

lemma fst_evaluate:
  "fst (evaluate H now eng flag user)
     = (enabled flag \<and> strategy_result H now (rollout_strategy flag) flag user)"
  by (simp add: evaluate_def Let_def strategy_result_evaluations)

lemma bucket_less_one: "bucket H s < 1"
  by (simp add: bucket_def)

lemma py_eq_PNone: "py_eq PNone v \<longleftrightarrow> v = PNone"
  by (cases v) simp_all

lemma attribute_match:
  "py_eq (dict_get d a) v \<longleftrightarrow>
     (case map_of d a of Some w \<Rightarrow> py_eq w v | None \<Rightarrow> v = PNone)"
  by (simp add: dict_get_def py_eq_PNone split: option.split)

lemma evaluate_targeted_iff:
  "evaluate_targeted flag user \<longleftrightarrow>
     (id_user user \<in> target_users flag
      \<or> (\<exists>g\<in>set (groups user). g \<in> target_groups flag)
      \<or> (\<exists>(a, v)\<in>set (target_attributes flag).
            case map_of (attributes user) a of Some w \<Rightarrow> py_eq w v | None \<Rightarrow> v = PNone))"
  by (simp add: evaluate_targeted_def list_ex_iff attribute_match case_prod_beta)

section \<open>Facts about the experiment engine\<close>

lemma map_of_experiments_update:
  "map_of (AList.update k v al) = (map_of al)(k \<mapsto> v)"
  by (rule update_conv')

lemma assign_variant_known:
  assumes "map_of (experiments e) exp_id = Some ex"
  shows "assign_variant H e exp_id user =
     (if bucket H (hash_input exp_id (id_user user)) < split ex
      then (''a'', e\<lparr>experiments := AList.update exp_id
              (ex\<lparr>variant_a_count := variant_a_count ex + 1\<rparr>) (experiments e)\<rparr>)
      else (''b'', e\<lparr>experiments := AList.update exp_id
              (ex\<lparr>variant_b_count := variant_b_count ex + 1\<rparr>) (experiments e)\<rparr>))"
  using assms by (simp add: assign_variant_def)

lemma str_nat_0: "str_nat 0 = ''0''"
  by code_simp

lemma create_first:
  "create_experiment ABTestingEngine_init n fa fb s =
     (''exp-0'', \<lparr>experiments = [(''exp-0'',
        \<lparr>exp_name = n, flag_a = fa, flag_b = fb, split = s,
         variant_a_count = 0, variant_b_count = 0,
         variant_a_conversions = 0, variant_b_conversions = 0\<rparr>)]\<rparr>)"
  by (simp add: create_experiment_def ABTestingEngine_init_def Let_def str_nat_0 del: str_nat.simps)

lemma get_results_no_conversions:
  assumes "map_of (experiments e) exp_id = Some ex"
    and "variant_a_conversions ex = 0" and "variant_b_conversions ex = 0"
  shows "get_results e exp_id = Inl ZeroDivisionError"
  using assms by (simp add: get_results_def py_truediv_def)

section \<open>Facts about the kill switch and sequences of calls\<close>

lemma evaluate_enabled: "enabled (snd (snd (evaluate H now eng flag user))) = enabled flag"
  by (simp add: evaluate_def Let_def)

lemma foldl_setattr_disabled:
  "\<not> enabled f \<Longrightarrow> Kw_enabled True \<notin> set kwargs \<Longrightarrow> \<not> list_ex is_dict kwargs \<Longrightarrow>
     \<not> enabled (foldl setattr f kwargs)"
proof (induction kwargs arbitrary: f)
  case Nil
  then show ?case by simp
next
  case (Cons a kwargs)
  from Cons.prems have "\<not> enabled (setattr f a)"
    by (cases a) auto
  with Cons show ?case by simp
qed

lemma step_keeps_disabled:
  assumes "disabled_in k ks" and "\<not> reenables k c"
  shows "disabled_in k (snd (step H ks c))"
proof (cases c)
  case (Is_enabled k' u t)
  show ?thesis
  proof (cases "flags (manager ks) k'")
    case None
    with assms Is_enabled show ?thesis by (simp add: is_enabled_def)
  next
    case (Some f)
    obtain r eng' f' where e: "evaluate H t (targeting_engine (manager ks)) f u = (r, eng', f')"
      by (cases "evaluate H t (targeting_engine (manager ks)) f u") auto
    with evaluate_enabled [of H t "targeting_engine (manager ks)" f u]
    have "enabled f' = enabled f" by simp
    with assms Is_enabled Some e show ?thesis
      by (auto simp: is_enabled_def disabled_in_def)
  qed
next
  case (Create_flag k' n d t1 t2)
  with assms show ?thesis
    by (auto simp: create_flag_def disabled_in_def new_flag_def Let_def)
next
  case (Update_flag k' kwargs t)
  with assms show ?thesis
    by (auto simp: update_flag_def disabled_in_def foldl_setattr_disabled
        split: option.splits)
next
  case (Activate k' why t)
  with assms show ?thesis
    by (auto simp: activate_def disabled_in_def split: option.splits)
next
  case (Deactivate k')
  with assms show ?thesis
    by (auto simp: deactivate_def disabled_in_def split: option.splits)
qed



lemma run_keeps_disabled:
  assumes "disabled_in k ks" and "\<forall>c\<in>set calls. \<not> reenables k c"
  shows "disabled_in k (snd (run H ks calls))"
  using assms
proof (induction calls arbitrary: ks)
  case Nil
  then show ?case by simp
next
  case (Cons c calls)
  obtain r ks' where s: "step H ks c = (r, ks')" by (cases "step H ks c") auto
  obtain rs ks'' where rn: "run H ks' calls = (rs, ks'')" by (cases "run H ks' calls") auto
  from Cons.prems step_keeps_disabled [of k ks c H] s
  have d: "disabled_in k ks'" by simp
  from Cons.prems have "\<forall>c\<in>set calls. \<not> reenables k c" by simp
  from Cons.IH [OF d this] rn s show ?case by simp
qed


section \<open>Facts about the counter invariant\<close>

lemma flag_inv_evaluate:
  "flag_inv flag \<Longrightarrow> flag_inv (snd (snd (evaluate H now eng flag user)))"
  by (simp add: evaluate_def Let_def flag_inv_def)

lemma manager_inv_store:
  "manager_inv m \<Longrightarrow> flag_inv f \<Longrightarrow> manager_inv (m\<lparr>flags := (flags m)(k \<mapsto> f)\<rparr>)"
  by (simp add: manager_inv_def)

lemma manager_inv_engine:
  "manager_inv (m\<lparr>targeting_engine := eng\<rparr>) = manager_inv m"
  by (simp add: manager_inv_def)

lemma manager_inv_lookup: "manager_inv m \<Longrightarrow> flags m k = Some f \<Longrightarrow> flag_inv f"
  by (simp add: manager_inv_def)

lemma setattr_counters:
  "\<not> sets_counter a \<Longrightarrow>
     evaluations (setattr f a) = evaluations f \<and> enabled_count (setattr f a) = enabled_count f"
  by (cases a) simp_all

lemma foldl_setattr_counters:
  "\<forall>a\<in>set kwargs. \<not> sets_counter a \<Longrightarrow>
     evaluations (foldl setattr f kwargs) = evaluations f
     \<and> enabled_count (foldl setattr f kwargs) = enabled_count f"
  by (induction kwargs arbitrary: f) (simp_all add: setattr_counters)

lemma is_enabled_inv:
  assumes "manager_inv m"
  shows "manager_inv (snd (is_enabled H now m k user))"
proof (cases "flags m k")
  case None
  with assms show ?thesis by (simp add: is_enabled_def)
next
  case (Some f)
  obtain r eng' f' where e: "evaluate H now (targeting_engine m) f user = (r, eng', f')"
    by (cases "evaluate H now (targeting_engine m) f user") auto
  from assms Some have "flag_inv f" by (rule manager_inv_lookup)
  from flag_inv_evaluate [OF this, of H now "targeting_engine m" user] e
  have "flag_inv f'" by simp
  with assms have "manager_inv (m\<lparr>flags := (flags m)(k \<mapsto> f')\<rparr>)"
    by (simp add: manager_inv_store)
  then have "manager_inv (m\<lparr>flags := (flags m)(k \<mapsto> f'), targeting_engine := eng'\<rparr>)"
    by (simp add: manager_inv_def)
  with Some e show ?thesis by (simp add: is_enabled_def)
qed

lemma create_flag_inv:
  assumes "manager_inv m"
  shows "flag_inv (fst (create_flag m k n d t1 t2)) \<and> manager_inv (snd (create_flag m k n d t1 t2))"
proof -
  have "flag_inv (new_flag k n d t1 t2)" by (simp add: flag_inv_def new_flag_def)
  with assms show ?thesis by (simp add: create_flag_def Let_def manager_inv_store)
qed

lemma update_flag_inv:
  assumes "manager_inv m" and "\<forall>a\<in>set kwargs. \<not> sets_counter a"
  shows "manager_inv (snd (update_flag m k kwargs now))"
proof (cases "flags m k")
  case None
  with assms show ?thesis by (simp add: update_flag_def)
next
  case (Some f)
  from assms(1) Some have "flag_inv f" by (rule manager_inv_lookup)
  with foldl_setattr_counters [OF assms(2), of f]
  have "flag_inv ((foldl setattr f kwargs)\<lparr>updated_at := now\<rparr>)"
    by (simp add: flag_inv_def)
  with assms(1) Some show ?thesis by (simp add: update_flag_def manager_inv_store)
qed

lemma rollout_gradually_inv:
  assumes "manager_inv m" and "rollout_gradually m k target_percentage st = Some m'"
  shows "manager_inv m'"
proof (cases "flags m k")
  case None
  with assms show ?thesis by (simp add: rollout_gradually_def)
next
  case (Some f)
  from assms(1) Some have "flag_inv f" by (rule manager_inv_lookup)
  then have "flag_inv (f\<lparr>rollout_strategy := PERCENTAGE, rollout_percentage := c\<rparr>)" for c
    by (simp add: flag_inv_def)
  with assms Some show ?thesis
    by (auto simp: rollout_gradually_def manager_inv_store split: option.splits)
qed

lemma activate_inv:
  assumes "manager_inv (manager ks)"
  shows "manager_inv (manager (snd (activate ks k why now)))"
proof (cases "flags (manager ks) k")
  case None
  with assms show ?thesis by (simp add: activate_def)
next
  case (Some f)
  from assms Some have "flag_inv f" by (rule manager_inv_lookup)
  then have "flag_inv (f\<lparr>enabled := False\<rparr>)" by (simp add: flag_inv_def)
  with assms Some show ?thesis by (simp add: activate_def manager_inv_store)
qed

lemma deactivate_inv:
  assumes "manager_inv (manager ks)"
  shows "manager_inv (manager (snd (deactivate ks k)))"
proof (cases "flags (manager ks) k")
  case None
  with assms show ?thesis by (simp add: deactivate_def)
next
  case (Some f)
  from assms Some have "flag_inv f" by (rule manager_inv_lookup)
  then have "flag_inv (f\<lparr>enabled := True\<rparr>)" by (simp add: flag_inv_def)
  with assms Some show ?thesis by (simp add: deactivate_def manager_inv_store)
qed

lemma manager_step:
  "manager (snd (step H ks (Is_enabled k u t))) = snd (is_enabled H t (manager ks) k u)"
  "manager (snd (step H ks (Create_flag k n d t1 t2))) = snd (create_flag (manager ks) k n d t1 t2)"
  "manager (snd (step H ks (Update_flag k kwargs t))) = snd (update_flag (manager ks) k kwargs t)"
  "snd (step H ks (Activate k why t)) = snd (activate ks k why t)"
  "snd (step H ks (Deactivate k)) = snd (deactivate ks k)"
  by (simp_all split: prod.splits)

lemma step_inv:
  assumes "manager_inv (manager ks)" and "\<not> touches_counters c"
  shows "manager_inv (manager (snd (step H ks c)))"
proof (cases c)
  case (Is_enabled k u t)
  with is_enabled_inv [OF assms(1), of H t k u] show ?thesis
    by (simp only: manager_step)
next
  case (Create_flag k n d t1 t2)
  with create_flag_inv [OF assms(1), of k n d t1 t2] show ?thesis
    by (simp only: manager_step)
next
  case (Update_flag k kwargs t)
  with assms(2) have "\<forall>a\<in>set kwargs. \<not> sets_counter a" by (simp add: list_ex_iff)
  from update_flag_inv [OF assms(1) this, of k t] Update_flag show ?thesis
    by (simp only: manager_step)
next
  case (Activate k why t)
  with activate_inv [OF assms(1), of k why t] show ?thesis
    by (simp only: manager_step)
next
  case (Deactivate k)
  with deactivate_inv [OF assms(1), of k] show ?thesis
    by (simp only: manager_step)
qed

lemma run_inv:
  assumes "manager_inv (manager ks)" and "\<forall>c\<in>set calls. \<not> touches_counters c"
  shows "manager_inv (manager (snd (run H ks calls)))"
  using assms
proof (induction calls arbitrary: ks)
  case Nil
  then show ?case by simp
next
  case (Cons c calls)
  obtain r ks' where s: "step H ks c = (r, ks')" by (cases "step H ks c") auto
  obtain rs ks'' where rn: "run H ks' calls = (rs, ks'')" by (cases "run H ks' calls") auto
  from Cons.prems step_inv [of ks c H] s have d: "manager_inv (manager ks')" by simp
  from Cons.prems have "\<forall>c\<in>set calls. \<not> touches_counters c" by simp
  from Cons.IH [OF d this] rn s show ?case by simp
qed

lemma demo_system_inv: "manager_inv (manager demo_system)"
  by (simp add: manager_inv_def demo_system_def flag_inv_def new_ui_def premium_def new_flag_def)

lemma rollout_loop_done: "\<not> current < target_percentage \<Longrightarrow>
    rollout_loop current target_percentage st = Some current"
  by (simp add: rollout_loop.simps)

lemma rollout_loop_quarter: "rollout_loop 0 (1 / 4) (1 / 10) = Some (1 / 4)"
proof -
  have "rollout_loop 0 (1 / 4) (1 / 10) = rollout_loop (1 / 10) (1 / 4) (1 / 10)"
    by (subst rollout_loop.simps) simp
  also have "\<dots> = rollout_loop (2 / 10) (1 / 4) (1 / 10)"
    by (subst rollout_loop.simps) simp
  also have "\<dots> = rollout_loop (1 / 4) (1 / 4) (1 / 10)"
    by (subst rollout_loop.simps) simp
  also have "\<dots> = Some (1 / 4)"
    by (simp add: rollout_loop_done)
  finally show ?thesis .
qed

section \<open>The \<open>__dict__\<close> keyword of \<open>update_flag\<close>\<close>

text \<open>
  \<open>update_flag\<close> with \<open>__dict__\<close> undoes a kill switch, and breaks the counter
  invariant, without naming \<open>enabled\<close> or a counter.
\<close>

lemma update_flag_dict_reenables:
  "fst (run sample_hash (snd (activate demo_system ''new_ui'' ''Performance issues detected'' 0))
        [Is_enabled ''new_ui'' user1 1,
         Update_flag ''new_ui'' [Kw_dict (new_ui\<lparr>rollout_strategy := ALL_USERS\<rparr>)] 2,
         Is_enabled ''new_ui'' user1 3])
     = [Ret_bool False, Ret_bool True, Ret_bool True]"
  by (simp add: activate_def demo_system_def update_flag_def is_enabled_def evaluate_def
      new_ui_def new_flag_def)

lemma update_flag_dict_breaks_invariant:
  "\<not> manager_inv (snd (update_flag (manager demo_system) ''new_ui''
        [Kw_dict (new_ui\<lparr>enabled_count := 5\<rparr>)] 0))"
proof -
  have "flags (snd (update_flag (manager demo_system) ''new_ui''
        [Kw_dict (new_ui\<lparr>enabled_count := 5\<rparr>)] 0)) ''new_ui''
      = Some (new_ui\<lparr>enabled_count := 5, updated_at := 0\<rparr>)"
    by (simp add: update_flag_def demo_system_def)
  moreover have "\<not> flag_inv (new_ui\<lparr>enabled_count := 5, updated_at := 0\<rparr>)"
    by (simp add: flag_inv_def new_ui_def new_flag_def)
  ultimately show ?thesis
    by (auto simp: manager_inv_def)
qed

section \<open>Evaluation counters\<close>

text \<open>
  C1. A call of \<open>evaluate\<close> adds one to \<open>evaluations\<close>, adds one to \<open>enabled_count\<close> exactly
  when it returns true and leaves it alone otherwise, and changes no other field of the
  flag; on a flag that is not enabled it returns false and only \<open>evaluations\<close> moves.
\<close>

theorem evaluate_counters:
  assumes "evaluate H now eng flag user = (r, eng', flag')"
  shows "evaluations flag' = evaluations flag + 1
       \<and> (enabled_count flag' = enabled_count flag + 1 \<longleftrightarrow> r)
       \<and> (enabled_count flag' = enabled_count flag \<longleftrightarrow> \<not> r)
       \<and> flag' = flag\<lparr>evaluations := evaluations flag + 1,
                       enabled_count := enabled_count flag + (if r then 1 else 0)\<rparr>
       \<and> (\<not> enabled flag \<longrightarrow> \<not> r \<and> flag' = flag\<lparr>evaluations := evaluations flag + 1\<rparr>)"
  using assms by (auto simp: evaluate_def Let_def split: if_splits)

theorem evaluate_counters_witness:
  "evaluate sample_hash 0 \<lparr>engine_evaluations = 0\<rparr> new_ui user1
     = (True, \<lparr>engine_evaluations = 1\<rparr>, new_ui\<lparr>evaluations := 1, enabled_count := 1\<rparr>)
   \<and> evaluations (new_ui\<lparr>evaluations := 1, enabled_count := 1\<rparr>) = evaluations new_ui + 1
   \<and> enabled_count (new_ui\<lparr>evaluations := 1, enabled_count := 1\<rparr>) = enabled_count new_ui + 1"
proof -
  have h: "evaluate sample_hash 0 \<lparr>engine_evaluations = 0\<rparr> new_ui user1
     = (True, \<lparr>engine_evaluations = 1\<rparr>, new_ui\<lparr>evaluations := 1, enabled_count := 1\<rparr>)"
    by (simp add: evaluate_def new_ui_def new_flag_def user1_def sample_hash_def
        evaluate_percentage_def bucket_def hash_input_def)
  from evaluate_counters [OF h] h show ?thesis by blast
qed

section \<open>Percentage rollout\<close>

text \<open>
  C5. For one user and one flag key, with the flag enabled and under the Percentage
  strategy in both runs: if \<open>evaluate\<close> returns true at rollout percentage \<open>p1\<close>, it
  returns true at every larger percentage \<open>p2\<close>, for \<open>0 \<le> p1 < p2 \<le> 1\<close>.
\<close>

theorem percentage_monotone:
  assumes "enabled f1" and "enabled f2"
    and "rollout_strategy f1 = PERCENTAGE" and "rollout_strategy f2 = PERCENTAGE"
    and "key f1 = key f2"
    and "0 \<le> rollout_percentage f1" and "rollout_percentage f1 < rollout_percentage f2"
    and "rollout_percentage f2 \<le> 1"
    and "fst (evaluate H now1 eng1 f1 user)"
  shows "fst (evaluate H now2 eng2 f2 user)"
proof -
  from assms(3,9) have "bucket H (hash_input (key f1) (id_user user)) < rollout_percentage f1"
    by (simp add: fst_evaluate evaluate_percentage_def)
  with assms(5,7) have "bucket H (hash_input (key f2) (id_user user)) < rollout_percentage f2"
    by simp
  with assms(2,4) show ?thesis
    by (simp add: fst_evaluate evaluate_percentage_def)
qed

theorem percentage_monotone_witness:
  "enabled new_ui \<and> rollout_strategy new_ui = PERCENTAGE
   \<and> rollout_percentage new_ui = 25 / 100
   \<and> fst (evaluate sample_hash 0 \<lparr>engine_evaluations = 0\<rparr> new_ui user1)
   \<and> fst (evaluate sample_hash 0 \<lparr>engine_evaluations = 0\<rparr>
            (new_ui\<lparr>rollout_percentage := 50 / 100\<rparr>) user1)"
proof -
  have a: "enabled new_ui" "rollout_strategy new_ui = PERCENTAGE"
    "rollout_percentage new_ui = 25 / 100"
    by (simp_all add: new_ui_def new_flag_def)
  have b: "enabled (new_ui\<lparr>rollout_percentage := 50 / 100\<rparr>)"
    "rollout_strategy (new_ui\<lparr>rollout_percentage := 50 / 100\<rparr>) = PERCENTAGE"
    "key new_ui = key (new_ui\<lparr>rollout_percentage := 50 / 100\<rparr>)"
    "0 \<le> rollout_percentage new_ui"
    "rollout_percentage new_ui < rollout_percentage (new_ui\<lparr>rollout_percentage := 50 / 100\<rparr>)"
    "rollout_percentage (new_ui\<lparr>rollout_percentage := 50 / 100\<rparr>) \<le> 1"
    by (simp_all add: new_ui_def new_flag_def)
  have c: "fst (evaluate sample_hash 0 \<lparr>engine_evaluations = 0\<rparr> new_ui user1)"
    by (simp add: evaluate_def new_ui_def new_flag_def user1_def sample_hash_def
        evaluate_percentage_def bucket_def hash_input_def)
  from percentage_monotone [OF a(1) b(1) a(2) b(2) b(3) b(4) b(5) b(6) c] a c
  show ?thesis by blast
qed

section \<open>Gradual rollout\<close>

text \<open>
  C7. Ten hours (36000000000 microseconds) or more after \<open>created_at\<close>, \<open>evaluate\<close> on an
  enabled flag under the Gradual strategy returns what it returns under the Percentage
  strategy with rollout percentage 1 on the otherwise same flag, and that is true for
  every user.
\<close>

theorem gradual_saturation:
  assumes "enabled flag" and "rollout_strategy flag = GRADUAL"
    and "36000000000 \<le> now - created_at flag"
  shows "fst (evaluate H now eng flag user)
       = fst (evaluate H now' eng' (flag\<lparr>rollout_strategy := PERCENTAGE, rollout_percentage := 1\<rparr>) user)
     \<and> fst (evaluate H now eng flag user)"
proof -
  have "36000000000 \<le> real_of_int (now - created_at flag)"
    using assms(3) by linarith
  then have "1 \<le> elapsed_hours now (created_at flag) * (1 / 10)"
    by (simp add: elapsed_hours_def)
  then have m: "min 1 (elapsed_hours now (created_at flag) * (1 / 10)) = 1"
    by (rule min_absorb1)
  have g: "evaluate_gradual H now flag user"
    unfolding evaluate_gradual_def Let_def m by (rule bucket_less_one)
  have p: "evaluate_percentage H (flag\<lparr>rollout_strategy := PERCENTAGE, rollout_percentage := 1\<rparr>) user"
    by (simp add: evaluate_percentage_def bucket_less_one)
  show ?thesis using assms(1,2) g p
    by (simp add: fst_evaluate)
qed

theorem gradual_saturation_witness:
  "enabled (new_ui\<lparr>rollout_strategy := GRADUAL\<rparr>)
   \<and> (36000000000::int) \<le> 36000000000 - created_at (new_ui\<lparr>rollout_strategy := GRADUAL\<rparr>)
   \<and> fst (evaluate sample_hash 36000000000 \<lparr>engine_evaluations = 0\<rparr>
            (new_ui\<lparr>rollout_strategy := GRADUAL\<rparr>) user1)"
proof -
  have a: "enabled (new_ui\<lparr>rollout_strategy := GRADUAL\<rparr>)"
    "rollout_strategy (new_ui\<lparr>rollout_strategy := GRADUAL\<rparr>) = GRADUAL"
    "(36000000000::int) \<le> 36000000000 - created_at (new_ui\<lparr>rollout_strategy := GRADUAL\<rparr>)"
    by (simp_all add: new_ui_def new_flag_def)
  from gradual_saturation [OF a, of sample_hash "\<lparr>engine_evaluations = 0\<rparr>" user1] a
  show ?thesis by blast
qed

section \<open>Unknown experiments\<close>

text \<open>
  C10. For an experiment id that the engine does not hold, \<open>assign_variant\<close> returns
  \<open>'a'\<close> and \<open>record_conversion\<close> returns, both leaving the engine as it was.
\<close>

theorem unknown_experiment:
  assumes "map_of (experiments e) exp_id = None"
  shows "assign_variant H e exp_id user = (''a'', e) \<and> record_conversion H e exp_id user = e"
  using assms by (simp add: assign_variant_def record_conversion_def)

theorem unknown_experiment_witness:
  "map_of (experiments ABTestingEngine_init) ''exp-0'' = None
   \<and> assign_variant sample_hash ABTestingEngine_init ''exp-0'' user1 = (''a'', ABTestingEngine_init)
   \<and> record_conversion sample_hash ABTestingEngine_init ''exp-0'' user1 = ABTestingEngine_init"
proof -
  have a: "map_of (experiments ABTestingEngine_init) ''exp-0'' = None"
    by (simp add: ABTestingEngine_init_def)
  from unknown_experiment [OF a] a show ?thesis by blast
qed

section \<open>Targeted rollout\<close>

text \<open>
  C6, as the code has it. On a flag under the Targeted strategy \<open>evaluate\<close> returns true
  exactly when the flag is enabled and the user's id is in \<open>target_users\<close>, or one of
  the user's groups is in \<open>target_groups\<close>, or some pair \<open>(attr, value)\<close> of
  \<open>target_attributes\<close> matches: the user's value for \<open>attr\<close> equals \<open>value\<close> or, when
  the user has no such attribute, \<open>value\<close> is \<open>None\<close> (\<open>dict.get\<close> reads a missing
  attribute as \<open>None\<close>). On a flag that is not enabled it returns false. No case raises.
\<close>

theorem targeted_iff:
  assumes "rollout_strategy flag = TARGETED"
  shows "fst (evaluate H now eng flag user) \<longleftrightarrow>
     (enabled flag \<and>
      (id_user user \<in> target_users flag
       \<or> (\<exists>g\<in>set (groups user). g \<in> target_groups flag)
       \<or> (\<exists>(a, v)\<in>set (target_attributes flag).
             case map_of (attributes user) a of Some w \<Rightarrow> py_eq w v | None \<Rightarrow> v = PNone)))"
  using assms by (simp add: fst_evaluate evaluate_targeted_iff)

theorem targeted_iff_witness:
  "rollout_strategy premium = TARGETED \<and> enabled premium
   \<and> fst (evaluate sample_hash 0 \<lparr>engine_evaluations = 0\<rparr> premium user2)
   \<and> \<not> fst (evaluate sample_hash 0 \<lparr>engine_evaluations = 0\<rparr> premium user1)
   \<and> \<not> fst (evaluate sample_hash 0 \<lparr>engine_evaluations = 0\<rparr> (premium\<lparr>enabled := False\<rparr>) user2)"
proof -
  have a: "rollout_strategy premium = TARGETED"
    and a': "rollout_strategy (premium\<lparr>enabled := False\<rparr>) = TARGETED"
    and e: "enabled premium" and e': "\<not> enabled (premium\<lparr>enabled := False\<rparr>)"
    by (simp_all add: premium_def new_flag_def)
  have b: "\<exists>g\<in>set (groups user2). g \<in> target_groups premium"
    by (simp add: premium_def new_flag_def user2_def)
  have c: "\<not> (id_user user1 \<in> target_users premium
      \<or> (\<exists>g\<in>set (groups user1). g \<in> target_groups premium)
      \<or> (\<exists>(a, v)\<in>set (target_attributes premium).
            case map_of (attributes user1) a of Some w \<Rightarrow> py_eq w v | None \<Rightarrow> v = PNone))"
    by (simp add: premium_def new_flag_def user1_def)
  from targeted_iff [OF a, of sample_hash 0 "\<lparr>engine_evaluations = 0\<rparr>" user2]
    targeted_iff [OF a, of sample_hash 0 "\<lparr>engine_evaluations = 0\<rparr>" user1]
    targeted_iff [OF a', of sample_hash 0 "\<lparr>engine_evaluations = 0\<rparr>" user2]
    a e e' b c
  show ?thesis by blast
qed

text \<open>
  C6 as the claim states it fails twice. A flag that expects \<open>plan = None\<close> matches
  \<open>user1\<close>, who has no attribute \<open>plan\<close>, is in no target group and is no target user.
  And a flag that is not enabled returns false for \<open>user2\<close>, whose group is targeted.
\<close>

theorem targeted_counterexample:
  "fst (evaluate sample_hash 0 \<lparr>engine_evaluations = 0\<rparr>
          (premium\<lparr>target_attributes := [(''plan'', PNone)]\<rparr>) user1)
   \<and> id_user user1 \<notin> target_users (premium\<lparr>target_attributes := [(''plan'', PNone)]\<rparr>)
   \<and> set (groups user1) \<inter> target_groups (premium\<lparr>target_attributes := [(''plan'', PNone)]\<rparr>) = {}
   \<and> map_of (attributes user1) ''plan'' = None
   \<and> \<not> fst (evaluate sample_hash 0 \<lparr>engine_evaluations = 0\<rparr> (premium\<lparr>enabled := False\<rparr>) user2)
   \<and> rollout_strategy (premium\<lparr>enabled := False\<rparr>) = TARGETED
   \<and> ''premium'' \<in> set (groups user2)
   \<and> ''premium'' \<in> target_groups (premium\<lparr>enabled := False\<rparr>)"
  by (simp add: fst_evaluate evaluate_targeted_def dict_get_def premium_def new_flag_def
      user1_def user2_def)

section \<open>Experiments\<close>

text \<open>
  C8. For an experiment the engine holds, a second \<open>assign_variant\<close> for the same user
  returns the variant the first returned (one of \<open>'a'\<close>, \<open>'b'\<close>), although the first
  changed a counter; \<open>record_conversion\<close> leaves the experiment with the conversion
  counter (and the assignment counter) of exactly that variant one higher and every
  other field as it was, and the variant is still the same afterwards.
\<close>

theorem assign_variant_consistent:
  assumes "map_of (experiments e) exp_id = Some ex"
  shows "fst (assign_variant H (snd (assign_variant H e exp_id user)) exp_id user)
           = fst (assign_variant H e exp_id user)
       \<and> (fst (assign_variant H e exp_id user) = ''a'' \<or> fst (assign_variant H e exp_id user) = ''b'')
       \<and> map_of (experiments (record_conversion H e exp_id user)) exp_id =
           Some (if fst (assign_variant H e exp_id user) = ''a''
                 then ex\<lparr>variant_a_count := variant_a_count ex + 1,
                         variant_a_conversions := variant_a_conversions ex + 1\<rparr>
                 else ex\<lparr>variant_b_count := variant_b_count ex + 1,
                         variant_b_conversions := variant_b_conversions ex + 1\<rparr>)
       \<and> fst (assign_variant H (record_conversion H e exp_id user) exp_id user)
           = fst (assign_variant H e exp_id user)"
proof (cases "bucket H (hash_input exp_id (id_user user)) < split ex")
  case True
  let ?e1 = "e\<lparr>experiments := AList.update exp_id
              (ex\<lparr>variant_a_count := variant_a_count ex + 1\<rparr>) (experiments e)\<rparr>"
  have a: "assign_variant H e exp_id user = (''a'', ?e1)"
    using assms True by (simp add: assign_variant_known)
  have m1: "map_of (experiments ?e1) exp_id = Some (ex\<lparr>variant_a_count := variant_a_count ex + 1\<rparr>)"
    by (simp add: map_of_experiments_update)
  have b: "fst (assign_variant H ?e1 exp_id user) = ''a''"
    using True by (simp add: assign_variant_known [OF m1])
  have r: "record_conversion H e exp_id user =
      ?e1\<lparr>experiments := AList.update exp_id
         (ex\<lparr>variant_a_count := variant_a_count ex + 1,
             variant_a_conversions := variant_a_conversions ex + 1\<rparr>) (experiments ?e1)\<rparr>"
    using assms m1 by (simp add: record_conversion_def a)
  have m2: "map_of (experiments (record_conversion H e exp_id user)) exp_id =
      Some (ex\<lparr>variant_a_count := variant_a_count ex + 1,
               variant_a_conversions := variant_a_conversions ex + 1\<rparr>)"
    unfolding r by (simp add: map_of_experiments_update)
  have c: "fst (assign_variant H (record_conversion H e exp_id user) exp_id user) = ''a''"
    using True by (simp add: assign_variant_known [OF m2])
  show ?thesis using a b m2 c by simp
next
  case False
  let ?e1 = "e\<lparr>experiments := AList.update exp_id
              (ex\<lparr>variant_b_count := variant_b_count ex + 1\<rparr>) (experiments e)\<rparr>"
  have a: "assign_variant H e exp_id user = (''b'', ?e1)"
    using assms False by (simp add: assign_variant_known)
  have m1: "map_of (experiments ?e1) exp_id = Some (ex\<lparr>variant_b_count := variant_b_count ex + 1\<rparr>)"
    by (simp add: map_of_experiments_update)
  have b: "fst (assign_variant H ?e1 exp_id user) = ''b''"
    using False by (simp add: assign_variant_known [OF m1])
  have r: "record_conversion H e exp_id user =
      ?e1\<lparr>experiments := AList.update exp_id
         (ex\<lparr>variant_b_count := variant_b_count ex + 1,
             variant_b_conversions := variant_b_conversions ex + 1\<rparr>) (experiments ?e1)\<rparr>"
    using assms m1 by (simp add: record_conversion_def a)
  have m2: "map_of (experiments (record_conversion H e exp_id user)) exp_id =
      Some (ex\<lparr>variant_b_count := variant_b_count ex + 1,
               variant_b_conversions := variant_b_conversions ex + 1\<rparr>)"
    unfolding r by (simp add: map_of_experiments_update)
  have c: "fst (assign_variant H (record_conversion H e exp_id user) exp_id user) = ''b''"
    using False by (simp add: assign_variant_known [OF m2])
  show ?thesis using a b m2 c by simp
qed

theorem assign_variant_consistent_witness:
  "map_of (experiments (snd (create_experiment ABTestingEngine_init
       ''New Checkout Flow'' ''checkout_v1'' ''checkout_v2'' (1 / 2)))) ''exp-0''
     = Some \<lparr>exp_name = ''New Checkout Flow'', flag_a = ''checkout_v1'', flag_b = ''checkout_v2'',
         split = 1 / 2, variant_a_count = 0, variant_b_count = 0,
         variant_a_conversions = 0, variant_b_conversions = 0\<rparr>
   \<and> fst (assign_variant sample_hash (snd (assign_variant sample_hash
        (snd (create_experiment ABTestingEngine_init
           ''New Checkout Flow'' ''checkout_v1'' ''checkout_v2'' (1 / 2))) ''exp-0'' user1))
        ''exp-0'' user1)
     = fst (assign_variant sample_hash (snd (create_experiment ABTestingEngine_init
           ''New Checkout Flow'' ''checkout_v1'' ''checkout_v2'' (1 / 2))) ''exp-0'' user1)"
proof -
  have a: "map_of (experiments (snd (create_experiment ABTestingEngine_init
       ''New Checkout Flow'' ''checkout_v1'' ''checkout_v2'' (1 / 2)))) ''exp-0''
     = Some \<lparr>exp_name = ''New Checkout Flow'', flag_a = ''checkout_v1'', flag_b = ''checkout_v2'',
         split = 1 / 2, variant_a_count = 0, variant_b_count = 0,
         variant_a_conversions = 0, variant_b_conversions = 0\<rparr>"
    by (simp add: create_first)
  from assign_variant_consistent [OF a, of sample_hash user1] a show ?thesis by blast
qed

text \<open>
  C9, as the code has it. \<open>create_experiment\<close> checks nothing: for every split, inside
  \<open>[0, 1]\<close> or not, it returns the id \<open>exp-<n>\<close>, \<open>n\<close> the number of experiments so far,
  and stores the experiment under it with that split unchanged and all counters zero.
\<close>

theorem create_experiment_stores_split:
  "fst (create_experiment e n fa fb s) = ''exp-'' @ str_nat (length (experiments e))
   \<and> map_of (experiments (snd (create_experiment e n fa fb s)))
        (fst (create_experiment e n fa fb s)) =
       Some \<lparr>exp_name = n, flag_a = fa, flag_b = fb, split = s,
             variant_a_count = 0, variant_b_count = 0,
             variant_a_conversions = 0, variant_b_conversions = 0\<rparr>"
  by (simp add: create_experiment_def Let_def map_of_experiments_update del: str_nat.simps)

text \<open>
  C9 as the claim states it fails: a split of 1.5 is accepted and stored.
\<close>

theorem create_experiment_split_counterexample:
  "create_experiment ABTestingEngine_init ''New Checkout Flow'' ''checkout_v1'' ''checkout_v2'' (3 / 2) =
     (''exp-0'', \<lparr>experiments = [(''exp-0'',
        \<lparr>exp_name = ''New Checkout Flow'', flag_a = ''checkout_v1'', flag_b = ''checkout_v2'',
         split = 3 / 2, variant_a_count = 0, variant_b_count = 0,
         variant_a_conversions = 0, variant_b_conversions = 0\<rparr>)]\<rparr>)
   \<and> \<not> ((3::real) / 2 \<le> 1)"
  by (simp add: create_first)

text \<open>
  C2. An experiment just created has no assignment on either variant; \<open>get_results\<close> on
  it raises \<open>ZeroDivisionError\<close> in the division for \<open>lift\<close>, where the claim has it
  return rates and lift 0.
\<close>

theorem get_results_fresh_experiment:
  "get_results (snd (create_experiment ABTestingEngine_init
       ''New Checkout Flow'' ''checkout_v1'' ''checkout_v2'' (1 / 2))) ''exp-0''
     = Inl ZeroDivisionError"
  by (simp add: create_first get_results_def py_truediv_def)

section \<open>Kill switch\<close>




section \<open>Counter invariant\<close>

text \<open>
  C4, as the code has it. \<open>enabled_count \<le> evaluations\<close> on every flag is kept by
  \<open>evaluate\<close>, \<open>is_enabled\<close>, \<open>create_flag\<close> (whose new flag has it), \<open>rollout_gradually\<close>
  when it returns, \<open>activate\<close> and \<open>deactivate\<close>, and by \<open>update_flag\<close> when no keyword
  argument is \<open>evaluations\<close>, \<open>enabled_count\<close> or \<open>__dict__\<close> (which replaces both
  counters with all other fields); so it is kept by every sequence of calls without such
  an \<open>update_flag\<close>.
\<close>

theorem counter_invariant_preserved:
  "(flag_inv flag \<longrightarrow> flag_inv (snd (snd (evaluate H now eng flag user))))
   \<and> (manager_inv m \<longrightarrow> manager_inv (snd (is_enabled H now m k user)))
   \<and> (manager_inv m \<longrightarrow>
        flag_inv (fst (create_flag m k n d t1 t2)) \<and> manager_inv (snd (create_flag m k n d t1 t2)))
   \<and> (manager_inv m \<and> (\<forall>a\<in>set kwargs. \<not> sets_counter a) \<longrightarrow>
        manager_inv (snd (update_flag m k kwargs now)))
   \<and> (manager_inv m \<and> rollout_gradually m k target_percentage st = Some m' \<longrightarrow> manager_inv m')
   \<and> (manager_inv (manager ks) \<longrightarrow> manager_inv (manager (snd (activate ks k why now))))
   \<and> (manager_inv (manager ks) \<longrightarrow> manager_inv (manager (snd (deactivate ks k))))
   \<and> (manager_inv (manager ks) \<and> (\<forall>c\<in>set calls. \<not> touches_counters c) \<longrightarrow>
        manager_inv (manager (snd (run H ks calls))))"
proof (intro conjI impI)
  show "flag_inv flag \<Longrightarrow> flag_inv (snd (snd (evaluate H now eng flag user)))"
    by (rule flag_inv_evaluate)
  show "manager_inv m \<Longrightarrow> manager_inv (snd (is_enabled H now m k user))"
    by (rule is_enabled_inv)
  show "manager_inv m \<Longrightarrow> flag_inv (fst (create_flag m k n d t1 t2))"
    by (simp add: create_flag_inv)
  show "manager_inv m \<Longrightarrow> manager_inv (snd (create_flag m k n d t1 t2))"
    by (simp add: create_flag_inv)
  show "manager_inv m \<and> (\<forall>a\<in>set kwargs. \<not> sets_counter a) \<Longrightarrow>
      manager_inv (snd (update_flag m k kwargs now))"
    by (simp add: update_flag_inv)
  show "manager_inv m \<and> rollout_gradually m k target_percentage st = Some m' \<Longrightarrow> manager_inv m'"
    using rollout_gradually_inv by blast
  show "manager_inv (manager ks) \<Longrightarrow> manager_inv (manager (snd (activate ks k why now)))"
    by (rule activate_inv)
  show "manager_inv (manager ks) \<Longrightarrow> manager_inv (manager (snd (deactivate ks k)))"
    by (rule deactivate_inv)
  show "manager_inv (manager ks) \<and> (\<forall>c\<in>set calls. \<not> touches_counters c) \<Longrightarrow>
      manager_inv (manager (snd (run H ks calls)))"
    by (simp add: run_inv)
qed

theorem counter_invariant_preserved_witness:
  "manager_inv (manager demo_system)
   \<and> flag_inv new_ui
   \<and> flag_inv (snd (snd (evaluate sample_hash 0 \<lparr>engine_evaluations = 0\<rparr> new_ui user1)))
   \<and> manager_inv (snd (is_enabled sample_hash 0 (manager demo_system) ''new_ui'' user1))
   \<and> manager_inv (snd (create_flag (manager demo_system) ''dark_mode'' ''Dark mode'' ''Dark theme'' 0 0))
   \<and> \<not> list_ex sets_counter [Kw_enabled False, Kw_rollout_percentage (1 / 2)]
   \<and> manager_inv (snd (update_flag (manager demo_system) ''new_ui''
        [Kw_enabled False, Kw_rollout_percentage (1 / 2)] 0))
   \<and> rollout_percentage premium = 0
   \<and> rollout_gradually (manager demo_system) ''premium_features'' (1 / 4) (1 / 10)
        = Some ((manager demo_system)\<lparr>flags := (flags (manager demo_system))(''premium_features'' \<mapsto>
             premium\<lparr>rollout_strategy := PERCENTAGE, rollout_percentage := 1 / 4\<rparr>)\<rparr>)
   \<and> manager_inv ((manager demo_system)\<lparr>flags := (flags (manager demo_system))(''premium_features'' \<mapsto>
             premium\<lparr>rollout_strategy := PERCENTAGE, rollout_percentage := 1 / 4\<rparr>)\<rparr>)
   \<and> manager_inv (manager (snd (activate demo_system ''new_ui'' ''Performance issues detected'' 0)))
   \<and> manager_inv (manager (snd (deactivate demo_system ''new_ui'')))
   \<and> \<not> list_ex touches_counters
        [Is_enabled ''new_ui'' user1 0, Activate ''new_ui'' ''Performance issues detected'' 1]
   \<and> manager_inv (manager (snd (run sample_hash demo_system
        [Is_enabled ''new_ui'' user1 0, Activate ''new_ui'' ''Performance issues detected'' 1])))"
proof -
  have a: "manager_inv (manager demo_system)" by (rule demo_system_inv)
  have b: "flag_inv new_ui" by (simp add: flag_inv_def new_ui_def new_flag_def)
  have c: "\<forall>a\<in>set [Kw_enabled False, Kw_rollout_percentage (1 / 2)]. \<not> sets_counter a"
    by simp
  have d0: "rollout_percentage premium = 0"
    by (simp add: premium_def new_flag_def)
  have d: "rollout_gradually (manager demo_system) ''premium_features'' (1 / 4) (1 / 10)
        = Some ((manager demo_system)\<lparr>flags := (flags (manager demo_system))(''premium_features'' \<mapsto>
             premium\<lparr>rollout_strategy := PERCENTAGE, rollout_percentage := 1 / 4\<rparr>)\<rparr>)"
    by (simp add: rollout_gradually_def demo_system_def d0 rollout_loop_quarter)
  have e: "\<forall>c\<in>set [Is_enabled ''new_ui'' user1 0, Activate ''new_ui'' ''Performance issues detected'' 1].
        \<not> touches_counters c"
    by simp
  note th = counter_invariant_preserved [where flag = new_ui and H = sample_hash and now = 0
      and eng = "\<lparr>engine_evaluations = 0\<rparr>" and user = user1
      and m = "manager demo_system" and k = "''new_ui''"
      and n = "''Dark mode''" and d = "''Dark theme''" and ?t1.0 = 0 and ?t2.0 = 0
      and kwargs = "[Kw_enabled False, Kw_rollout_percentage (1 / 2)]"
      and target_percentage = "1 / 4" and st = "1 / 10" and m' = "manager demo_system"
      and ks = demo_system and why = "''Performance issues detected''"
      and calls = "[Is_enabled ''new_ui'' user1 0,
                    Activate ''new_ui'' ''Performance issues detected'' 1]"]
  note th2 = counter_invariant_preserved [where flag = new_ui and H = sample_hash and now = 0
      and eng = "\<lparr>engine_evaluations = 0\<rparr>" and user = user1
      and m = "manager demo_system" and k = "''dark_mode''"
      and n = "''Dark mode''" and d = "''Dark theme''" and ?t1.0 = 0 and ?t2.0 = 0
      and kwargs = "[]"
      and target_percentage = "1 / 4" and st = "1 / 10" and m' = "manager demo_system"
      and ks = demo_system and why = "''Performance issues detected''" and calls = "[]"]
  note th3 = counter_invariant_preserved [where flag = new_ui and H = sample_hash and now = 0
      and eng = "\<lparr>engine_evaluations = 0\<rparr>" and user = user1
      and m = "manager demo_system" and k = "''premium_features''"
      and n = "''Dark mode''" and d = "''Dark theme''" and ?t1.0 = 0 and ?t2.0 = 0
      and kwargs = "[]"
      and target_percentage = "1 / 4" and st = "1 / 10"
      and m' = "(manager demo_system)\<lparr>flags := (flags (manager demo_system))(''premium_features'' \<mapsto>
             premium\<lparr>rollout_strategy := PERCENTAGE, rollout_percentage := 1 / 4\<rparr>)\<rparr>"
      and ks = demo_system and why = "''Performance issues detected''" and calls = "[]"]
  have f: "\<not> list_ex sets_counter [Kw_enabled False, Kw_rollout_percentage (1 / 2)]"
    and g: "\<not> list_ex touches_counters
        [Is_enabled ''new_ui'' user1 0, Activate ''new_ui'' ''Performance issues detected'' 1]"
    by simp_all
  from th a b c e
  have r1: "flag_inv (snd (snd (evaluate sample_hash 0 \<lparr>engine_evaluations = 0\<rparr> new_ui user1)))"
    and r2: "manager_inv (snd (is_enabled sample_hash 0 (manager demo_system) ''new_ui'' user1))"
    and r3: "manager_inv (snd (update_flag (manager demo_system) ''new_ui''
        [Kw_enabled False, Kw_rollout_percentage (1 / 2)] 0))"
    and r4: "manager_inv (manager (snd (activate demo_system ''new_ui'' ''Performance issues detected'' 0)))"
    and r5: "manager_inv (manager (snd (deactivate demo_system ''new_ui'')))"
    and r6: "manager_inv (manager (snd (run sample_hash demo_system
        [Is_enabled ''new_ui'' user1 0, Activate ''new_ui'' ''Performance issues detected'' 1])))"
    by blast+
  from th2 a
  have r7: "manager_inv (snd (create_flag (manager demo_system) ''dark_mode'' ''Dark mode'' ''Dark theme'' 0 0))"
    by blast
  from th3 a d
  have r8: "manager_inv ((manager demo_system)\<lparr>flags := (flags (manager demo_system))(''premium_features'' \<mapsto>
             premium\<lparr>rollout_strategy := PERCENTAGE, rollout_percentage := 1 / 4\<rparr>)\<rparr>)"
    by blast
  from a b d d0 f g r1 r2 r3 r4 r5 r6 r7 r8 show ?thesis by blast
qed

text \<open>
  C4 as the claim states it fails for \<open>update_flag\<close>: it stores any value under any
  field, and \<open>enabled_count=1\<close> on a flag never evaluated breaks the invariant.
\<close>

theorem update_flag_counterexample:
  "manager_inv (manager demo_system)
   \<and> \<not> manager_inv (snd (update_flag (manager demo_system) ''new_ui'' [Kw_enabled_count 1] 0))"
proof -
  have "flags (snd (update_flag (manager demo_system) ''new_ui'' [Kw_enabled_count 1] 0)) ''new_ui''
      = Some (new_ui\<lparr>enabled_count := 1, updated_at := 0\<rparr>)"
    by (simp add: update_flag_def demo_system_def)
  moreover have "\<not> flag_inv (new_ui\<lparr>enabled_count := 1, updated_at := 0\<rparr>)"
    by (simp add: flag_inv_def new_ui_def new_flag_def)
  ultimately have "\<not> manager_inv (snd (update_flag (manager demo_system) ''new_ui'' [Kw_enabled_count 1] 0))"
    by (auto simp: manager_inv_def)
  with demo_system_inv show ?thesis by simp
qed

end
